theory Spec2Isabelle
  imports Complex_Main
begin

section \<open>The inventory service of \<open>packages/inventory/src/services/inventory.ts\<close>\<close>

text \<open>
  \<open>InventoryService\<close> is a coordinator over three injected collaborators: the inventory
  item service, the inventory level service and the reservation item service. Every
  method is a short script of awaited calls on them. The embedding threads one \<open>store\<close>
  value through those calls, returns a thrown \<open>MedusaError\<close> as \<open>Inl\<close>, and records each
  call the coordinator issues on a collaborator in the trace \<open>calls\<close>, so that statements
  such as ``fails before any level query'' can be read off the result.

  The quantities held by the rows are integers (spec 3). The one arithmetic operation of
  the coordinator on a caller's number, the \<open>+\<close> of \<open>adjustInventory\<close>, is IEEE 754 double
  addition: it is modelled by \<open>js_add\<close> on the type \<open>number\<close> below. The comparison \<open>>=\<close> of
  \<open>confirmInventory\<close> compares two whole quantities, on which it is the order of the integers.
\<close>

subsection \<open>JavaScript numbers\<close>

text \<open>
  A \<open>number\<close> is a double: a finite value (a rational; the two zeros are not told apart),
  an infinity, or NaN. \<open>round_double\<close> rounds a rational to the nearest double, ties to the
  even significand: 53 significant bits, exponents from \<open>-1022\<close> (below which the spacing
  stays \<open>2 ^ (-1074)\<close>), and overflow to an infinity when the rounded magnitude reaches
  \<open>2 ^ 1024\<close>. \<open>js_add\<close> is the \<open>+\<close> of two numbers: the exact sum, rounded. A value \<open>Num q\<close>
  stands for a double when \<open>round_double q = Num q\<close>; the whole numbers within \<open>\<plusminus> 2 ^ 53\<close>
  are such values (lemma \<open>round_double_int\<close> below).
\<close>

datatype number = Num rat | PosInf | NegInf | NaN









fun int_of_number :: "number \<Rightarrow> int option" where
  "int_of_number (Num x) = (if of_int \<lfloor>x\<rfloor> = x then Some \<lfloor>x\<rfloor> else None)"
| "int_of_number _ = None"

subsection \<open>Errors\<close>

datatype error_type = NOT_FOUND | INVALID_ARGUMENT | CONFLICT

datatype medusa_error = MedusaError error_type string

subsection \<open>Rows and inputs\<close>

record inventory_item =
  ii_id :: string

record inventory_level =
  il_id :: string
  il_inventory_item_id :: string
  il_location_id :: string
  il_stocked_quantity :: int
  il_reserved_quantity :: int
  il_incoming_quantity :: int

record reservation_item =
  ri_id :: string
  ri_inventory_item_id :: string
  ri_location_id :: string
  ri_quantity :: int
  ri_line_item_id :: "string option"

record create_reservation_item_input =
  cri_inventory_item_id :: string
  cri_location_id :: string
  cri_quantity :: int
  cri_line_item_id :: "string option"

text \<open>
  \<open>FilterableInventoryLevelProps\<close>: each field of the selector is a string or an array of
  strings in the source; a single string is the one-element list here.
\<close>

record filterable_inventory_level_props =
  f_inventory_item_id :: "string list"
  f_location_id :: "string list"

text \<open>
  \<open>UpdateInventoryLevelInput\<close>: both fields are optional in the source, and each is a
  \<open>number\<close>.
\<close>

record update_inventory_level_input =
  u_stocked_quantity :: "number option"
  u_incoming_quantity :: "number option"

subsection \<open>The store and the trace of collaborator calls\<close>

datatype store_call =
    ItemRetrieve string
  | ItemDelete "string list"
  | LevelList filterable_inventory_level_props "nat option"
  | LevelUpdate string update_inventory_level_input
  | LevelDelete string
  | LevelDeleteByInventoryItemId "string list"
  | LevelGetAvailableQuantity string "string list"
  | LevelGetStockedQuantity string "string list"
  | LevelGetReservedQuantity string "string list"
  | ReservationCreate "create_reservation_item_input list"

record store =
  items :: "inventory_item list"
  levels :: "inventory_level list"
  reservations :: "reservation_item list"
  next_id :: nat
  calls :: "store_call list"

type_synonym 'a result = "(medusa_error + 'a) \<times> store"

definition called :: "store_call \<Rightarrow> store \<Rightarrow> store" where
  "called c s = s\<lparr>calls := calls s @ [c]\<rparr>"

definition level_at :: "string \<Rightarrow> string \<Rightarrow> inventory_level \<Rightarrow> bool" where
  "level_at inventoryItemId locationId r \<longleftrightarrow>
     il_inventory_item_id r = inventoryItemId \<and> il_location_id r = locationId"

definition has_level :: "store \<Rightarrow> string \<times> string \<Rightarrow> bool" where
  "has_level s p \<longleftrightarrow> list_ex (level_at (fst p) (snd p)) (levels s)"

definition item_exists :: "store \<Rightarrow> string \<Rightarrow> bool" where
  "item_exists s inventoryItemId \<longleftrightarrow> list_ex (\<lambda>i. ii_id i = inventoryItemId) (items s)"

subsection \<open>Inventory item store\<close>

text \<open>
  Modelled from the spec: \<open>InventoryItemService.retrieve\<close> (\<open>./inventory-item\<close> is not among
  the sources). Spec 4.1: ``retrieve(id, projection) \<rightarrow> item or fails with NotFound''; spec
  4.5: the not-found failure carries the offending identifier.
\<close>

definition inventoryItemService_retrieve :: "string \<Rightarrow> store \<Rightarrow> inventory_item result" where
  "inventoryItemService_retrieve inventoryItemId s =
     (case find (\<lambda>i. ii_id i = inventoryItemId) (items s) of
        None \<Rightarrow>
          (Inl (MedusaError NOT_FOUND
                  (''InventoryItem with id '' @ inventoryItemId @ '' was not found'')),
           called (ItemRetrieve inventoryItemId) s)
      | Some i \<Rightarrow> (Inr i, called (ItemRetrieve inventoryItemId) s))"

text \<open>
  Modelled from the spec: \<open>InventoryItemService.delete\<close> (not among the sources). Spec 4.1:
  ``delete(id-or-ids) \<rightarrow> removes rows, no cascade''.
\<close>

definition inventoryItemService_delete :: "string list \<Rightarrow> store \<Rightarrow> unit result" where
  "inventoryItemService_delete ids s =
     (Inr (), called (ItemDelete ids) (s\<lparr>items := filter (\<lambda>i. ii_id i \<notin> set ids) (items s)\<rparr>))"

subsection \<open>Inventory level store\<close>

text \<open>
  Modelled from the spec: \<open>InventoryLevelService.list\<close> (\<open>./inventory-level\<close> is not among the
  sources). Spec 4.2: ``list levels matching a set of item-ids and a set of
  location-ids''; \<open>take\<close> bounds the number of rows returned. Rows come back in storage
  order.
\<close>

definition matches :: "filterable_inventory_level_props \<Rightarrow> inventory_level \<Rightarrow> bool" where
  "matches selector r \<longleftrightarrow>
     il_inventory_item_id r \<in> set (f_inventory_item_id selector) \<and>
     il_location_id r \<in> set (f_location_id selector)"

definition inventoryLevelService_list ::
  "filterable_inventory_level_props \<Rightarrow> nat option \<Rightarrow> store \<Rightarrow> inventory_level list \<times> store" where
  "inventoryLevelService_list selector take_opt s =
     (let rows = filter (matches selector) (levels s)
      in ((case take_opt of None \<Rightarrow> rows | Some n \<Rightarrow> take n rows),
          called (LevelList selector take_opt) s))"





text \<open>
  Modelled from the spec: \<open>InventoryLevelService.delete\<close> and
  \<open>InventoryLevelService.deleteByInventoryItemId\<close> (not among the sources). Spec 4.2:
  ``delete all levels for a given item id (or ids)''; the store never cascades (spec 3).
\<close>

definition inventoryLevelService_delete :: "string \<Rightarrow> store \<Rightarrow> unit result" where
  "inventoryLevelService_delete levelId s =
     (Inr (), called (LevelDelete levelId)
                (s\<lparr>levels := filter (\<lambda>r. il_id r \<noteq> levelId) (levels s)\<rparr>))"

definition inventoryLevelService_deleteByInventoryItemId ::
  "string list \<Rightarrow> store \<Rightarrow> unit result" where
  "inventoryLevelService_deleteByInventoryItemId ids s =
     (Inr (), called (LevelDeleteByInventoryItemId ids)
                (s\<lparr>levels := filter (\<lambda>r. il_inventory_item_id r \<notin> set ids) (levels s)\<rparr>))"

text \<open>
  Modelled from the spec: the quantity helpers of \<open>InventoryLevelService\<close> (not among the
  sources). Spec 4.2: ``given an item id and a list of location ids, return the sum of
  stocked, reserved, and derived available quantities across exactly those (item,
  location) rows that exist; locations with no row contribute zero''; spec 3:
  \<open>available = stocked_quantity - reserved_quantity\<close>, derived, never persisted.
\<close>

definition rows_of :: "store \<Rightarrow> string \<Rightarrow> string list \<Rightarrow> inventory_level list" where
  "rows_of s inventoryItemId locationIds =
     filter (\<lambda>r. il_inventory_item_id r = inventoryItemId \<and> il_location_id r \<in> set locationIds)
       (levels s)"

definition stocked_total :: "store \<Rightarrow> string \<Rightarrow> string list \<Rightarrow> int" where
  "stocked_total s inventoryItemId locationIds =
     sum_list (map il_stocked_quantity (rows_of s inventoryItemId locationIds))"

definition reserved_total :: "store \<Rightarrow> string \<Rightarrow> string list \<Rightarrow> int" where
  "reserved_total s inventoryItemId locationIds =
     sum_list (map il_reserved_quantity (rows_of s inventoryItemId locationIds))"

definition available_total :: "store \<Rightarrow> string \<Rightarrow> string list \<Rightarrow> int" where
  "available_total s inventoryItemId locationIds =
     sum_list (map (\<lambda>r. il_stocked_quantity r - il_reserved_quantity r)
                 (rows_of s inventoryItemId locationIds))"

definition inventoryLevelService_getAvailableQuantity ::
  "string \<Rightarrow> string list \<Rightarrow> store \<Rightarrow> int \<times> store" where
  "inventoryLevelService_getAvailableQuantity inventoryItemId locationIds s =
     (available_total s inventoryItemId locationIds,
      called (LevelGetAvailableQuantity inventoryItemId locationIds) s)"

definition inventoryLevelService_getStockedQuantity ::
  "string \<Rightarrow> string list \<Rightarrow> store \<Rightarrow> int \<times> store" where
  "inventoryLevelService_getStockedQuantity inventoryItemId locationIds s =
     (stocked_total s inventoryItemId locationIds,
      called (LevelGetStockedQuantity inventoryItemId locationIds) s)"

definition inventoryLevelService_getReservedQuantity ::
  "string \<Rightarrow> string list \<Rightarrow> store \<Rightarrow> int \<times> store" where
  "inventoryLevelService_getReservedQuantity inventoryItemId locationIds s =
     (reserved_total s inventoryItemId locationIds,
      called (LevelGetReservedQuantity inventoryItemId locationIds) s)"

subsection \<open>Reservation store\<close>

text \<open>
  Modelled from the spec: \<open>ReservationItemService.create\<close> (\<open>./reservation-item\<close> is not among
  the sources). Spec 4.3: ``same CRUD shape, specialized to reservation rows'': one row is
  written per input, with a fresh opaque id. Spec 3: \<open>reserved_quantity\<close> of a level is
  ``mutated only \<dots> in step with reservation writes'', and the scenario of spec 8 (``Reserve
  5 units \<rightarrow> retrieveAvailableQuantity(I1,[LOC1]) \<rightarrow> 5'') fixes the direction: writing a
  reservation of quantity \<open>q\<close> raises \<open>reserved_quantity\<close> of the level at its (item,
  location) by \<open>q\<close>. The coordinator in the sources issues no other call when it creates
  reservations, so the step is part of this call.
\<close>

fun decimal :: "nat \<Rightarrow> string" where
  "decimal n =
     (if n < 10 then [char_of (48 + n)] else decimal (n div 10) @ [char_of (48 + n mod 10)])"

declare decimal.simps [simp del]

definition new_reservation :: "nat \<Rightarrow> create_reservation_item_input \<Rightarrow> reservation_item" where
  "new_reservation n d =
     \<lparr>ri_id = ''resitem_'' @ decimal n,
      ri_inventory_item_id = cri_inventory_item_id d,
      ri_location_id = cri_location_id d,
      ri_quantity = cri_quantity d,
      ri_line_item_id = cri_line_item_id d\<rparr>"

definition adjustReservedQuantity ::
  "inventory_level list \<Rightarrow> create_reservation_item_input \<Rightarrow> inventory_level list" where
  "adjustReservedQuantity lvls d =
     map (\<lambda>r. if level_at (cri_inventory_item_id d) (cri_location_id d) r
               then r\<lparr>il_reserved_quantity := il_reserved_quantity r + cri_quantity d\<rparr>
               else r) lvls"

definition new_reservations ::
  "store \<Rightarrow> create_reservation_item_input list \<Rightarrow> reservation_item list" where
  "new_reservations s input =
     map (\<lambda>(n, d). new_reservation n d) (zip [next_id s ..< next_id s + length input] input)"

definition reservationItemService_create ::
  "create_reservation_item_input list \<Rightarrow> store \<Rightarrow> reservation_item list result" where
  "reservationItemService_create input s =
     (let rows = new_reservations s input
      in (Inr rows,
          called (ReservationCreate input)
            (s\<lparr>reservations := reservations s @ rows,
               levels := foldl adjustReservedQuantity (levels s) input,
               next_id := next_id s + length input\<rparr>)))"

subsection \<open>Transaction boundary\<close>

text \<open>
  Modelled from the spec: the decorator \<open>@InjectTransactionManager(shouldForceTransaction,
  "baseRepository_")\<close> (\<open>@medusajs/utils\<close> and \<open>../utils\<close> are not among the sources). Spec 5: ``a
  failure at any step rolls back every write already issued in that boundary''. The rows
  are restored on a failure; the trace of calls is an observation and is kept.
\<close>

definition InjectTransactionManager :: "(store \<Rightarrow> 'a result) \<Rightarrow> store \<Rightarrow> 'a result" where
  "InjectTransactionManager body s =
     (case body s of
        (Inl e, s') \<Rightarrow>
          (Inl e, s'\<lparr>items := items s, levels := levels s, reservations := reservations s\<rparr>)
      | (Inr v, s') \<Rightarrow> (Inr v, s'))"

subsection \<open>The coordinator: \<open>InventoryService\<close>\<close>

text \<open>
  \<open>ensureInventoryLevels\<close> (lines 196-235). \<open>data\<close> is the list of (inventory_item_id,
  location_id) pairs of the inputs. The \<open>reduce\<close> builds a \<open>Map\<close> of \<open>Map\<close>s; \<open>index_level\<close> is
  its step and \<open>lookup_level\<close> is \<open>inventoryLevelMap.get(item)?.get(location)\<close>. The returned
  array is \<open>inventoryLevels.map(\<dots>)\<close>: it ranges over the rows the store returned, not over
  \<open>data\<close>. The non-null assertions of that last lookup are \<open>the\<close>; lemma
  \<open>lookup_level_indexed\<close> below shows the lookup is always defined there.
\<close>

type_synonym level_map = "string \<rightharpoonup> (string \<rightharpoonup> inventory_level)"

definition index_level :: "level_map \<Rightarrow> inventory_level \<Rightarrow> level_map" where
  "index_level acc cur =
     (let inventoryLevelMap =
            (case acc (il_inventory_item_id cur) of None \<Rightarrow> Map.empty | Some m \<Rightarrow> m)
      in acc(il_inventory_item_id cur \<mapsto> inventoryLevelMap(il_location_id cur \<mapsto> cur)))"

definition lookup_level :: "level_map \<Rightarrow> string \<Rightarrow> string \<Rightarrow> inventory_level option" where
  "lookup_level m inventoryItemId locationId =
     (case m inventoryItemId of None \<Rightarrow> None | Some inner \<Rightarrow> inner locationId)"

fun join :: "string \<Rightarrow> string list \<Rightarrow> string" where
  "join sep [] = []"
| "join sep [x] = x"
| "join sep (x # y # ys) = x @ sep @ join sep (y # ys)"

definition not_stocked_message :: "string \<times> string \<Rightarrow> string" where
  "not_stocked_message missing =
     ''Item '' @ fst missing @ '' is not stocked at location '' @ snd missing"

definition ensureInventoryLevels ::
  "(string \<times> string) list \<Rightarrow> store \<Rightarrow> inventory_level list result" where
  "ensureInventoryLevels data s =
     (case inventoryLevelService_list
             \<lparr>f_inventory_item_id = map fst data, f_location_id = map snd data\<rparr> None s of
        (inventoryLevels, s1) \<Rightarrow>
          (let inventoryLevelMap = foldl index_level Map.empty inventoryLevels;
               missing = filter (\<lambda>i. lookup_level inventoryLevelMap (fst i) (snd i) = None) data
           in if missing \<noteq> []
              then (Inl (MedusaError NOT_FOUND (join '', '' (map not_stocked_message missing))), s1)
              else (Inr (map (\<lambda>i. the (lookup_level inventoryLevelMap
                                          (il_inventory_item_id i) (il_location_id i)))
                           inventoryLevels),
                    s1)))"

text \<open>\<open>createReservationItems\<close> (lines 237-245).\<close>

definition pair_of :: "create_reservation_item_input \<Rightarrow> string \<times> string" where
  "pair_of d = (cri_inventory_item_id d, cri_location_id d)"

definition createReservationItems ::
  "create_reservation_item_input list \<Rightarrow> store \<Rightarrow> reservation_item list result" where
  "createReservationItems input =
     InjectTransactionManager (\<lambda>s.
       case ensureInventoryLevels (map pair_of input) s of
         (Inl e, s1) \<Rightarrow> (Inl e, s1)
       | (Inr _, s1) \<Rightarrow> reservationItemService_create input s1)"

text \<open>
  \<open>deleteInventoryItem\<close> (lines 337-348). \<open>inventoryItemId\<close> is a string or an array of
  strings; a single id is the one-element list.
\<close>

definition deleteInventoryItem :: "string list \<Rightarrow> store \<Rightarrow> unit result" where
  "deleteInventoryItem inventoryItemId =
     InjectTransactionManager (\<lambda>s.
       case inventoryLevelService_deleteByInventoryItemId inventoryItemId s of
         (Inl e, s1) \<Rightarrow> (Inl e, s1)
       | (Inr _, s1) \<Rightarrow> inventoryItemService_delete inventoryItemId s1)"

text \<open>
  \<open>deleteInventoryLevel\<close> (lines 378-395). \<open>const [inventoryLevel] = \<dots>\<close> takes the first row
  of the result, \<open>undefined\<close> when there is none.
\<close>

definition deleteInventoryLevel :: "string \<Rightarrow> string \<Rightarrow> store \<Rightarrow> unit result" where
  "deleteInventoryLevel inventoryItemId locationId =
     InjectTransactionManager (\<lambda>s.
       case inventoryLevelService_list
              \<lparr>f_inventory_item_id = [inventoryItemId], f_location_id = [locationId]\<rparr>
              (Some 1) s of
         ([], s1) \<Rightarrow> (Inr (), s1)
       | (inventoryLevel # _, s1) \<Rightarrow> inventoryLevelService_delete (il_id inventoryLevel) s1)"


text \<open>
  \<open>retrieveAvailableQuantity\<close>, \<open>retrieveStockedQuantity\<close>, \<open>retrieveReservedQuantity\<close> (lines
  551-652): the item is retrieved first (``Throws if item does not exist''), then the
  empty location list returns 0, then the level store's helper is called.
\<close>

definition retrieveAvailableQuantity :: "string \<Rightarrow> string list \<Rightarrow> store \<Rightarrow> int result" where
  "retrieveAvailableQuantity inventoryItemId locationIds s =
     (case inventoryItemService_retrieve inventoryItemId s of
        (Inl e, s1) \<Rightarrow> (Inl e, s1)
      | (Inr _, s1) \<Rightarrow>
          if length locationIds = 0 then (Inr 0, s1)
          else (case inventoryLevelService_getAvailableQuantity inventoryItemId locationIds s1 of
                  (availableQuantity, s2) \<Rightarrow> (Inr availableQuantity, s2)))"

definition retrieveStockedQuantity :: "string \<Rightarrow> string list \<Rightarrow> store \<Rightarrow> int result" where
  "retrieveStockedQuantity inventoryItemId locationIds s =
     (case inventoryItemService_retrieve inventoryItemId s of
        (Inl e, s1) \<Rightarrow> (Inl e, s1)
      | (Inr _, s1) \<Rightarrow>
          if length locationIds = 0 then (Inr 0, s1)
          else (case inventoryLevelService_getStockedQuantity inventoryItemId locationIds s1 of
                  (stockedQuantity, s2) \<Rightarrow> (Inr stockedQuantity, s2)))"

definition retrieveReservedQuantity :: "string \<Rightarrow> string list \<Rightarrow> store \<Rightarrow> int result" where
  "retrieveReservedQuantity inventoryItemId locationIds s =
     (case inventoryItemService_retrieve inventoryItemId s of
        (Inl e, s1) \<Rightarrow> (Inl e, s1)
      | (Inr _, s1) \<Rightarrow>
          if length locationIds = 0 then (Inr 0, s1)
          else (case inventoryLevelService_getReservedQuantity inventoryItemId locationIds s1 of
                  (reservedQuantity, s2) \<Rightarrow> (Inr reservedQuantity, s2)))"

text \<open>\<open>confirmInventory\<close> (lines 662-675).\<close>

definition confirmInventory :: "string \<Rightarrow> string list \<Rightarrow> int \<Rightarrow> store \<Rightarrow> bool result" where
  "confirmInventory inventoryItemId locationIds quantity =
     InjectTransactionManager (\<lambda>s.
       case retrieveAvailableQuantity inventoryItemId locationIds s of
         (Inl e, s1) \<Rightarrow> (Inl e, s1)
       | (Inr availableQuantity, s1) \<Rightarrow> (Inr (availableQuantity \<ge> quantity), s1))"

subsection \<open>Quantities requested by a batch\<close>

text \<open>
  The total quantity a batch of reservation inputs asks of one level row: the sum of the
  quantities of the inputs whose (item, location) is the row's.
\<close>

definition requested :: "create_reservation_item_input list \<Rightarrow> inventory_level \<Rightarrow> int" where
  "requested input r =
     sum_list (map cri_quantity
       (filter (\<lambda>d. level_at (cri_inventory_item_id d) (cri_location_id d) r) input))"

definition level_key :: "inventory_level \<Rightarrow> string \<times> string" where
  "level_key r = (il_inventory_item_id r, il_location_id r)"

subsection \<open>A concrete store\<close>

text \<open>
  The scenario of spec 8: item \<open>I1\<close> has a level at \<open>LOC1\<close> with stocked 10 and reserved 0.
  A second item \<open>I2\<close> is stocked at \<open>LOC1\<close> and \<open>LOC2\<close>.
\<close>

definition lvl1 :: inventory_level where
  "lvl1 = \<lparr>il_id = ''ilev_1'', il_inventory_item_id = ''I1'', il_location_id = ''LOC1'',
           il_stocked_quantity = 10, il_reserved_quantity = 0, il_incoming_quantity = 0\<rparr>"

definition lvl2 :: inventory_level where
  "lvl2 = \<lparr>il_id = ''ilev_2'', il_inventory_item_id = ''I2'', il_location_id = ''LOC1'',
           il_stocked_quantity = 4, il_reserved_quantity = 1, il_incoming_quantity = 0\<rparr>"

definition lvl3 :: inventory_level where
  "lvl3 = \<lparr>il_id = ''ilev_3'', il_inventory_item_id = ''I2'', il_location_id = ''LOC2'',
           il_stocked_quantity = 7, il_reserved_quantity = 2, il_incoming_quantity = 0\<rparr>"

definition store0 :: store where
  "store0 = \<lparr>items = [\<lparr>ii_id = ''I1''\<rparr>, \<lparr>ii_id = ''I2''\<rparr>],
             levels = [lvl1, lvl2, lvl3],
             reservations = [],
             next_id = 0,
             calls = []\<rparr>"

definition reserve :: "string \<Rightarrow> string \<Rightarrow> int \<Rightarrow> create_reservation_item_input" where
  "reserve inventoryItemId locationId q =
     \<lparr>cri_inventory_item_id = inventoryItemId, cri_location_id = locationId,
      cri_quantity = q, cri_line_item_id = None\<rparr>"

section \<open>Facts about the stores and the index\<close>

lemma store_calls_only [simp]:
  "s\<lparr>calls := c, items := items s, levels := levels s, reservations := reservations s\<rparr> =
     s\<lparr>calls := c\<rparr>"
  by (cases s) simp

lemma find_None_ex: "find P xs = None \<longleftrightarrow> \<not> list_ex P xs"
  by (auto simp: find_None_iff list_ex_iff)

lemma find_Some_set: "find P xs = Some x \<Longrightarrow> x \<in> set xs \<and> P x"
  by (induction xs) (auto split: if_splits)

lemma find_snoc:
  "find P (xs @ [x]) =
     (case find P xs of None \<Rightarrow> (if P x then Some x else None) | Some y \<Rightarrow> Some y)"
  by (induction xs) auto

lemma has_level_find: "has_level s (i, l) \<longleftrightarrow> find (level_at i l) (levels s) \<noteq> None"
  by (simp add: has_level_def find_None_ex)

lemma item_exists_find: "item_exists s i \<longleftrightarrow> find (\<lambda>x. ii_id x = i) (items s) \<noteq> None"
  by (simp add: item_exists_def find_None_ex)

text \<open>The selector of one (item, location) pair, and \<open>{ take: 1 }\<close>.\<close>

lemma matches_single [simp]:
  "matches \<lparr>f_inventory_item_id = [i], f_location_id = [l]\<rparr> = level_at i l"
  by (auto simp: matches_def level_at_def fun_eq_iff)

lemma take1_filter:
  "take (Suc 0) (filter P xs) = (case find P xs of None \<Rightarrow> [] | Some x \<Rightarrow> [x])"
  by (induction xs) auto

text \<open>The item store's \<open>retrieve\<close>, by whether the item exists.\<close>

lemma retrieve_unknown:
  "\<not> item_exists s i \<Longrightarrow>
     \<exists>msg. inventoryItemService_retrieve i s =
       (Inl (MedusaError NOT_FOUND msg), s\<lparr>calls := calls s @ [ItemRetrieve i]\<rparr>)"
  by (simp add: item_exists_find inventoryItemService_retrieve_def called_def)

lemma retrieve_known:
  "item_exists s i \<Longrightarrow>
     \<exists>x. inventoryItemService_retrieve i s = (Inr x, s\<lparr>calls := calls s @ [ItemRetrieve i]\<rparr>)"
  by (auto simp add: item_exists_find inventoryItemService_retrieve_def called_def)

text \<open>The aggregates read the level rows only.\<close>

lemma sum_list_map_diff:
  "sum_list (map (\<lambda>r. f r - g r) xs) = sum_list (map f xs) - (sum_list (map g xs) :: int)"
  by (induction xs) auto

lemma sum_list_map_diff3:
  "sum_list (map (\<lambda>r. f r - (g r + h r)) xs) =
     sum_list (map (\<lambda>r. f r - g r) xs) - (sum_list (map h xs) :: int)"
  by (induction xs) auto

lemma available_total_eq:
  "available_total s i ls = stocked_total s i ls - reserved_total s i ls"
  by (simp add: available_total_def stocked_total_def reserved_total_def sum_list_map_diff)

lemma totals_calls [simp]:
  "stocked_total (s\<lparr>calls := c\<rparr>) i ls = stocked_total s i ls"
  "reserved_total (s\<lparr>calls := c\<rparr>) i ls = reserved_total s i ls"
  "available_total (s\<lparr>calls := c\<rparr>) i ls = available_total s i ls"
  by (simp_all add: stocked_total_def reserved_total_def available_total_def rows_of_def)








lemma int_of_number_int [simp]: "int_of_number (Num (of_int n)) = Some n"
  by simp




text \<open>
  The two-level \<open>Map\<close> built by the \<open>reduce\<close>: a later row with the same (item, location)
  overwrites an earlier one, so a lookup finds the last such row.
\<close>

lemma lookup_level_index_level:
  "lookup_level (index_level acc c) i l = (if level_at i l c then Some c else lookup_level acc i l)"
  by (auto simp: lookup_level_def index_level_def level_at_def Let_def split: option.splits)

lemma lookup_level_empty [simp]: "lookup_level Map.empty i l = None"
  by (simp add: lookup_level_def)

lemma lookup_level_foldl:
  "lookup_level (foldl index_level acc rows) i l =
     (case find (level_at i l) (rev rows) of Some r \<Rightarrow> Some r | None \<Rightarrow> lookup_level acc i l)"
proof (induction rows arbitrary: acc)
  case Nil
  then show ?case by simp
next
  case (Cons x xs)
  show ?case
    by (simp add: Cons.IH find_snoc lookup_level_index_level split: option.splits)
qed

lemma lookup_level_indexed:
  "lookup_level (foldl index_level Map.empty rows) i l = find (level_at i l) (rev rows)"
  by (simp add: lookup_level_foldl split: option.splits)

text \<open>
  The batch lookup returns every level of an input pair: the pair's item id and location
  id are both in the selector.
\<close>

lemma listed_has_level:
  assumes "p \<in> set data"
  shows "list_ex (level_at (fst p) (snd p))
           (filter (matches \<lparr>f_inventory_item_id = map fst data, f_location_id = map snd data\<rparr>) xs)
         \<longleftrightarrow> list_ex (level_at (fst p) (snd p)) xs"
  using assms by (auto simp: list_ex_iff matches_def level_at_def)

lemma missing_eq:
  "filter (\<lambda>i. find (level_at (fst i) (snd i))
                   (rev (filter (matches \<lparr>f_inventory_item_id = map fst data,
                                          f_location_id = map snd data\<rparr>)
                      (levels s))) = None) data
   = filter (\<lambda>p. \<not> has_level s p) data"
proof (rule filter_cong [OF refl])
  fix p assume "p \<in> set data"
  then show "(find (level_at (fst p) (snd p))
                   (rev (filter (matches \<lparr>f_inventory_item_id = map fst data,
                                          f_location_id = map snd data\<rparr>)
                      (levels s))) = None) = (\<not> has_level s p)"
    by (simp add: find_None_ex listed_has_level has_level_def)
qed

lemma ensureInventoryLevels_eq:
  "ensureInventoryLevels data s =
     (let selector = \<lparr>f_inventory_item_id = map fst data, f_location_id = map snd data\<rparr>;
          listed = filter (matches selector) (levels s);
          missing = filter (\<lambda>p. \<not> has_level s p) data
      in if missing \<noteq> []
         then (Inl (MedusaError NOT_FOUND (join '', '' (map not_stocked_message missing))),
               s\<lparr>calls := calls s @ [LevelList selector None]\<rparr>)
         else (Inr (map (\<lambda>r. the (find (level_at (il_inventory_item_id r) (il_location_id r))
                                      (rev listed))) listed),
               s\<lparr>calls := calls s @ [LevelList selector None]\<rparr>))"
  by (simp add: ensureInventoryLevels_def inventoryLevelService_list_def Let_def missing_eq
        lookup_level_indexed called_def)

lemma pair_of_comp [simp]:
  "fst \<circ> pair_of = cri_inventory_item_id"
  "snd \<circ> pair_of = cri_location_id"
  by (simp_all add: pair_of_def fun_eq_iff)

text \<open>
  Where the (item, location) key is unique among the stored levels, the last lookup of
  \<open>ensureInventoryLevels\<close> returns each listed row itself.
\<close>

lemma resolve_unique:
  assumes uniq: "distinct (map level_key xs)" and mem: "r \<in> set (filter P xs)"
  shows "the (find (level_at (il_inventory_item_id r) (il_location_id r)) (rev (filter P xs))) = r"
proof -
  have "find (level_at (il_inventory_item_id r) (il_location_id r)) (rev (filter P xs)) \<noteq> None"
    using mem by (auto simp: find_None_ex list_ex_iff level_at_def)
  then obtain r' where f: "find (level_at (il_inventory_item_id r) (il_location_id r))
                              (rev (filter P xs)) = Some r'"
    by auto
  from find_Some_set [OF f] have "r' \<in> set xs" and "level_key r' = level_key r"
    by (auto simp: level_at_def level_key_def)
  moreover have "r \<in> set xs" using mem by simp
  moreover have "inj_on level_key (set xs)" using uniq by (simp add: distinct_map)
  ultimately have "r' = r" by (auto dest: inj_onD)
  with f show ?thesis by simp
qed

text \<open>
  Writing a batch of reservations raises \<open>reserved_quantity\<close> of every level row by the
  quantity the batch asks of it.
\<close>

lemma adjust_fold:
  "foldl adjustReservedQuantity lvls input =
     map (\<lambda>r. r\<lparr>il_reserved_quantity := il_reserved_quantity r + requested input r\<rparr>) lvls"
proof (induction input arbitrary: lvls)
  case Nil
  then show ?case by (simp add: requested_def)
next
  case (Cons d ds)
  have "foldl adjustReservedQuantity lvls (d # ds) =
          foldl adjustReservedQuantity (adjustReservedQuantity lvls d) ds"
    by simp
  also have "\<dots> = map (\<lambda>r. r\<lparr>il_reserved_quantity := il_reserved_quantity r + requested ds r\<rparr>)
                     (adjustReservedQuantity lvls d)"
    by (rule Cons.IH)
  also have "\<dots> = map (\<lambda>r. r\<lparr>il_reserved_quantity := il_reserved_quantity r + requested (d # ds) r\<rparr>)
                     lvls"
    by (auto simp: adjustReservedQuantity_def requested_def level_at_def)
  finally show ?case .
qed

lemma decimal_0: "decimal 0 = ''0''"
  by code_simp

section \<open>The claims\<close>

subsection \<open>C1: reservation creation is all-or-nothing\<close>

text \<open>
  Claim C1. For every batch of reservation inputs in which at least one
  (inventory_item_id, location_id) pair has no inventory level, \<open>createReservationItems\<close>
  raises a \<open>NOT_FOUND\<close> error whose message lists every offending pair (one ``Item \<dots> is not
  stocked at location \<dots>'' per offending input, in input order, joined by a comma), and no
  reservation row is written: the only call issued is the batch lookup of levels, and the
  store is otherwise as before.
\<close>

theorem createReservationItems_all_or_nothing:
  assumes "list_ex (\<lambda>d. \<not> has_level s (pair_of d)) input"
  shows "createReservationItems input s =
     (Inl (MedusaError NOT_FOUND
        (join '', '' (map not_stocked_message
           (filter (\<lambda>p. \<not> has_level s p) (map pair_of input))))),
      s\<lparr>calls := calls s @
         [LevelList \<lparr>f_inventory_item_id = map cri_inventory_item_id input,
                     f_location_id = map cri_location_id input\<rparr> None]\<rparr>)"
proof -
  have "filter (\<lambda>p. \<not> has_level s p) (map pair_of input) \<noteq> []"
    using assms by (auto simp: filter_empty_conv list_ex_iff)
  then show ?thesis
    by (simp add: createReservationItems_def InjectTransactionManager_def
          ensureInventoryLevels_eq Let_def)
qed

text \<open>
  At the concrete store: of three inputs, the first and the third are not stocked; both
  are named in the message, and nothing is written.
\<close>

theorem createReservationItems_all_or_nothing_witness:
  "list_ex (\<lambda>d. \<not> has_level store0 (pair_of d))
     [reserve ''I1'' ''LOC2'' 1, reserve ''I2'' ''LOC1'' 1, reserve ''I3'' ''LOC9'' 2] \<and>
   createReservationItems
     [reserve ''I1'' ''LOC2'' 1, reserve ''I2'' ''LOC1'' 1, reserve ''I3'' ''LOC9'' 2] store0 =
     (Inl (MedusaError NOT_FOUND
        ''Item I1 is not stocked at location LOC2, Item I3 is not stocked at location LOC9''),
      store0\<lparr>calls := [LevelList \<lparr>f_inventory_item_id = [''I1'', ''I2'', ''I3''],
                                  f_location_id = [''LOC2'', ''LOC1'', ''LOC9'']\<rparr> None]\<rparr>)"
proof -
  have h: "list_ex (\<lambda>d. \<not> has_level store0 (pair_of d))
     [reserve ''I1'' ''LOC2'' 1, reserve ''I2'' ''LOC1'' 1, reserve ''I3'' ''LOC9'' 2]"
    by (simp add: has_level_def level_at_def pair_of_def reserve_def store0_def
          lvl1_def lvl2_def lvl3_def)
  show ?thesis
    using h createReservationItems_all_or_nothing [OF h]
    by (simp add: has_level_def level_at_def pair_of_def reserve_def store0_def
          lvl1_def lvl2_def lvl3_def not_stocked_message_def)
qed

subsection \<open>C2: \<open>adjustInventory\<close>\<close>



subsection \<open>C3: \<open>confirmInventory\<close>\<close>

text \<open>
  Claim C3. For every existing inventory item, list of locations and requested quantity,
  \<open>confirmInventory\<close> returns \<open>true\<close> exactly when the derived available quantity (the
  stocked quantity minus the reserved quantity, summed over the item's levels at those
  locations) is at least the requested quantity, and it performs no write: the store
  afterwards is the store before with the item lookup, and for a non-empty location list
  the aggregate query, added to the trace of calls.
\<close>

theorem confirmInventory_iff_available:
  assumes "item_exists s inventoryItemId"
  shows "confirmInventory inventoryItemId locationIds quantity s =
     (Inr (quantity \<le> stocked_total s inventoryItemId locationIds -
                        reserved_total s inventoryItemId locationIds),
      s\<lparr>calls := calls s @ ItemRetrieve inventoryItemId #
           (if locationIds = [] then []
            else [LevelGetAvailableQuantity inventoryItemId locationIds])\<rparr>)"
  using retrieve_known [OF assms]
  by (auto simp: confirmInventory_def InjectTransactionManager_def retrieveAvailableQuantity_def
        inventoryLevelService_getAvailableQuantity_def called_def available_total_eq
        stocked_total_def reserved_total_def rows_of_def)

text \<open>
  \<open>I2\<close> has 4 stocked and 1 reserved at \<open>LOC1\<close>, 7 stocked and 2 reserved at \<open>LOC2\<close>: 8 units
  are available, so 8 is confirmed and 9 is not.
\<close>

theorem confirmInventory_iff_available_witness:
  "item_exists store0 ''I2'' \<and>
   stocked_total store0 ''I2'' [''LOC1'', ''LOC2''] = 11 \<and>
   reserved_total store0 ''I2'' [''LOC1'', ''LOC2''] = 3 \<and>
   confirmInventory ''I2'' [''LOC1'', ''LOC2''] 8 store0 =
     (Inr True, store0\<lparr>calls := [ItemRetrieve ''I2'',
                                  LevelGetAvailableQuantity ''I2'' [''LOC1'', ''LOC2'']]\<rparr>) \<and>
   confirmInventory ''I2'' [''LOC1'', ''LOC2''] 9 store0 =
     (Inr False, store0\<lparr>calls := [ItemRetrieve ''I2'',
                                   LevelGetAvailableQuantity ''I2'' [''LOC1'', ''LOC2'']]\<rparr>)"
proof -
  have e: "item_exists store0 ''I2''"
    by (simp add: item_exists_def store0_def)
  have t: "stocked_total store0 ''I2'' [''LOC1'', ''LOC2''] = 11"
    "reserved_total store0 ''I2'' [''LOC1'', ''LOC2''] = 3"
    by (simp_all add: stocked_total_def reserved_total_def rows_of_def store0_def
          lvl1_def lvl2_def lvl3_def)
  have c: "calls store0 = []"
    by (simp add: store0_def)
  show ?thesis
    using e confirmInventory_iff_available [OF e, of "[''LOC1'', ''LOC2'']" 8]
      confirmInventory_iff_available [OF e, of "[''LOC1'', ''LOC2'']" 9]
    by (simp add: t c)
qed

subsection \<open>C4: the item is checked before any level query\<close>

text \<open>
  Claim C4. For every item id with no inventory item record and every location list (in
  particular every non-empty one), \<open>retrieveAvailableQuantity\<close> fails with \<open>NOT_FOUND\<close>
  before any inventory-level query is issued: the only call made is the retrieval of the
  item. The same holds for \<open>retrieveStockedQuantity\<close> and \<open>retrieveReservedQuantity\<close>.
\<close>

theorem retrieve_quantities_item_checked_first:
  assumes "\<not> item_exists s inventoryItemId"
  shows "\<exists>msg.
     retrieveAvailableQuantity inventoryItemId locationIds s =
       (Inl (MedusaError NOT_FOUND msg), s\<lparr>calls := calls s @ [ItemRetrieve inventoryItemId]\<rparr>) \<and>
     retrieveStockedQuantity inventoryItemId locationIds s =
       (Inl (MedusaError NOT_FOUND msg), s\<lparr>calls := calls s @ [ItemRetrieve inventoryItemId]\<rparr>) \<and>
     retrieveReservedQuantity inventoryItemId locationIds s =
       (Inl (MedusaError NOT_FOUND msg), s\<lparr>calls := calls s @ [ItemRetrieve inventoryItemId]\<rparr>)"
  using retrieve_unknown [OF assms]
  by (auto simp: retrieveAvailableQuantity_def retrieveStockedQuantity_def
        retrieveReservedQuantity_def)

theorem retrieve_quantities_item_checked_first_witness:
  "\<not> item_exists store0 ''I9'' \<and>
   (\<exists>msg.
     retrieveAvailableQuantity ''I9'' [''LOC1''] store0 =
       (Inl (MedusaError NOT_FOUND msg), store0\<lparr>calls := [ItemRetrieve ''I9'']\<rparr>) \<and>
     retrieveStockedQuantity ''I9'' [''LOC1''] store0 =
       (Inl (MedusaError NOT_FOUND msg), store0\<lparr>calls := [ItemRetrieve ''I9'']\<rparr>) \<and>
     retrieveReservedQuantity ''I9'' [''LOC1''] store0 =
       (Inl (MedusaError NOT_FOUND msg), store0\<lparr>calls := [ItemRetrieve ''I9'']\<rparr>))"
proof -
  have h: "\<not> item_exists store0 ''I9''"
    by (simp add: item_exists_def store0_def)
  have c: "calls store0 = []"
    by (simp add: store0_def)
  show ?thesis
    using h retrieve_quantities_item_checked_first [OF h, of "[''LOC1'']"]
    by (simp add: c)
qed

subsection \<open>C5: the empty location list\<close>

text \<open>
  Claim C5 says that, for an existing item, \<open>retrieveAvailableQuantity\<close> with an empty
  location list returns 0 with no store call made. The method retrieves the item first
  (``Throws if item does not exist''), so one call on the item store is made; at the
  concrete store the trace goes from empty to that one call.
\<close>

theorem retrieveAvailableQuantity_no_locations_calls_item_store:
  "item_exists store0 ''I1'' \<and>
   calls store0 = [] \<and>
   retrieveAvailableQuantity ''I1'' [] store0 \<noteq> (Inr 0, store0) \<and>
   calls (snd (retrieveAvailableQuantity ''I1'' [] store0)) = [ItemRetrieve ''I1'']"
  by (simp add: item_exists_def store0_def retrieveAvailableQuantity_def
        inventoryItemService_retrieve_def called_def)

text \<open>
  Claim C5, amended. For every existing inventory item, \<open>retrieveAvailableQuantity\<close> with
  an empty location list returns 0 after exactly one call, the retrieval of the item; no
  inventory-level query is issued and no row changes.
\<close>

theorem retrieveAvailableQuantity_no_locations:
  assumes "item_exists s inventoryItemId"
  shows "retrieveAvailableQuantity inventoryItemId [] s =
     (Inr 0, s\<lparr>calls := calls s @ [ItemRetrieve inventoryItemId]\<rparr>)"
  using retrieve_known [OF assms]
  by (auto simp: retrieveAvailableQuantity_def)

theorem retrieveAvailableQuantity_no_locations_witness:
  "item_exists store0 ''I1'' \<and>
   retrieveAvailableQuantity ''I1'' [] store0 = (Inr 0, store0\<lparr>calls := [ItemRetrieve ''I1'']\<rparr>)"
proof -
  have h: "item_exists store0 ''I1''"
    by (simp add: item_exists_def store0_def)
  have c: "calls store0 = []"
    by (simp add: store0_def)
  show ?thesis
    using h retrieveAvailableQuantity_no_locations [OF h] by (simp add: c)
qed

subsection \<open>C6: what \<open>ensureInventoryLevels\<close> returns\<close>

text \<open>
  Claim C6 says that, when every input pair has a level row, \<open>ensureInventoryLevels\<close>
  returns the resolved rows in the order of the input pairs. The returned array is built
  by mapping over the rows the batch lookup returned, not over the inputs, and the lookup
  selects by a set of item ids and a set of location ids. At the concrete store the
  inputs (\<open>I2\<close>, \<open>LOC2\<close>) and (\<open>I1\<close>, \<open>LOC1\<close>) are both stocked; the result has three rows, in
  storage order, among them the level of (\<open>I2\<close>, \<open>LOC1\<close>), which no input names.
\<close>

theorem ensureInventoryLevels_not_in_input_order:
  "list_all (has_level store0) [(''I2'', ''LOC2''), (''I1'', ''LOC1'')] \<and>
   fst (ensureInventoryLevels [(''I2'', ''LOC2''), (''I1'', ''LOC1'')] store0) =
     Inr [lvl1, lvl2, lvl3] \<and>
   map level_key [lvl1, lvl2, lvl3] \<noteq> [(''I2'', ''LOC2''), (''I1'', ''LOC1'')]"
  by (simp add: has_level_def level_at_def store0_def lvl1_def lvl2_def lvl3_def
        ensureInventoryLevels_def inventoryLevelService_list_def matches_def called_def
        index_level_def lookup_level_def level_key_def)

text \<open>
  Claim C6, amended. For every batch of (inventory_item_id, location_id) pairs in which
  every pair has a level row, over a store whose levels are unique by (item, location),
  \<open>ensureInventoryLevels\<close> succeeds and returns the rows of the batch lookup: every stored
  level whose item id is among the batch's item ids and whose location id is among the
  batch's location ids, in the store's order. The level of each input pair is among the
  returned rows.
\<close>

theorem ensureInventoryLevels_returns_listed:
  assumes stocked: "list_all (has_level s) data"
    and uniq: "distinct (map level_key (levels s))"
  shows "ensureInventoryLevels data s =
     (Inr (filter (matches \<lparr>f_inventory_item_id = map fst data, f_location_id = map snd data\<rparr>)
             (levels s)),
      s\<lparr>calls := calls s @
         [LevelList \<lparr>f_inventory_item_id = map fst data, f_location_id = map snd data\<rparr> None]\<rparr>) \<and>
     list_all (\<lambda>p. list_ex (level_at (fst p) (snd p))
                 (filter (matches \<lparr>f_inventory_item_id = map fst data,
                                   f_location_id = map snd data\<rparr>)
                    (levels s))) data"
proof -
  let ?sel = "\<lparr>f_inventory_item_id = map fst data, f_location_id = map snd data\<rparr>"
  have none: "filter (\<lambda>p. \<not> has_level s p) data = []"
    using stocked by (auto simp: filter_empty_conv list_all_iff)
  have same: "map (\<lambda>r. the (find (level_at (il_inventory_item_id r) (il_location_id r))
                             (rev (filter (matches ?sel) (levels s)))))
                (filter (matches ?sel) (levels s)) = filter (matches ?sel) (levels s)"
    by (rule map_idI) (rule resolve_unique [OF uniq])
  have run: "ensureInventoryLevels data s =
     (Inr (filter (matches ?sel) (levels s)), s\<lparr>calls := calls s @ [LevelList ?sel None]\<rparr>)"
    using none same by (simp add: ensureInventoryLevels_eq Let_def)
  have found: "list_all (\<lambda>p. list_ex (level_at (fst p) (snd p))
                                (filter (matches ?sel) (levels s))) data"
    using stocked by (simp add: list_all_iff listed_has_level has_level_def)
  show ?thesis using run found by simp
qed

theorem ensureInventoryLevels_returns_listed_witness:
  "list_all (has_level store0) [(''I2'', ''LOC2''), (''I1'', ''LOC1'')] \<and>
   distinct (map level_key (levels store0)) \<and>
   ensureInventoryLevels [(''I2'', ''LOC2''), (''I1'', ''LOC1'')] store0 =
     (Inr [lvl1, lvl2, lvl3],
      store0\<lparr>calls := [LevelList \<lparr>f_inventory_item_id = [''I2'', ''I1''],
                                  f_location_id = [''LOC2'', ''LOC1'']\<rparr> None]\<rparr>) \<and>
   list_ex (level_at ''I2'' ''LOC2'') [lvl1, lvl2, lvl3] \<and>
   list_ex (level_at ''I1'' ''LOC1'') [lvl1, lvl2, lvl3]"
proof -
  have a: "list_all (has_level store0) [(''I2'', ''LOC2''), (''I1'', ''LOC1'')]"
    by (simp add: has_level_def level_at_def store0_def lvl1_def lvl2_def lvl3_def)
  have b: "distinct (map level_key (levels store0))"
    by (simp add: level_key_def store0_def lvl1_def lvl2_def lvl3_def)
  have c: "filter (matches \<lparr>f_inventory_item_id = [''I2'', ''I1''],
                           f_location_id = [''LOC2'', ''LOC1'']\<rparr>) (levels store0) =
             [lvl1, lvl2, lvl3]"
    by (simp add: matches_def store0_def lvl1_def lvl2_def lvl3_def)
  have d: "calls store0 = []"
    by (simp add: store0_def)
  show ?thesis
    using ensureInventoryLevels_returns_listed [OF a b] a b by (simp add: c d)
qed

subsection \<open>C7: deleting an absent level\<close>

text \<open>
  Claim C7. Deleting the inventory level of an (inventory_item_id, location_id) pair with
  no row is idempotent: \<open>deleteInventoryLevel\<close> returns without an error and leaves every
  row unchanged. The only call issued is the lookup; no delete reaches the store.
\<close>

theorem deleteInventoryLevel_absent_is_noop:
  assumes "\<not> has_level s (inventoryItemId, locationId)"
  shows "deleteInventoryLevel inventoryItemId locationId s =
     (Inr (),
      s\<lparr>calls := calls s @
         [LevelList \<lparr>f_inventory_item_id = [inventoryItemId],
                     f_location_id = [locationId]\<rparr> (Some 1)]\<rparr>)"
  using assms
  by (simp add: has_level_find deleteInventoryLevel_def InjectTransactionManager_def
        inventoryLevelService_list_def take1_filter called_def)

theorem deleteInventoryLevel_absent_is_noop_witness:
  "\<not> has_level store0 (''I1'', ''LOC2'') \<and>
   deleteInventoryLevel ''I1'' ''LOC2'' store0 =
     (Inr (),
      store0\<lparr>calls := [LevelList \<lparr>f_inventory_item_id = [''I1''],
                                  f_location_id = [''LOC2'']\<rparr> (Some 1)]\<rparr>)"
proof -
  have h: "\<not> has_level store0 (''I1'', ''LOC2'')"
    by (simp add: has_level_def level_at_def store0_def lvl1_def lvl2_def lvl3_def)
  have c: "calls store0 = []"
    by (simp add: store0_def)
  show ?thesis
    using h deleteInventoryLevel_absent_is_noop [OF h] by (simp add: c)
qed

subsection \<open>C8: deleting an inventory item\<close>

text \<open>
  Claim C8. For every inventory item id (or list of ids), \<open>deleteInventoryItem\<close> first
  deletes the inventory levels of that item and then the item row itself: the two calls
  are issued in that order, the levels left are exactly the levels of the other items
  (unchanged and in their order), the items left are the other items, and the reservation
  rows are unchanged.
\<close>

theorem deleteInventoryItem_cascade:
  "fst (deleteInventoryItem ids s) = Inr () \<and>
   calls (snd (deleteInventoryItem ids s)) =
     calls s @ [LevelDeleteByInventoryItemId ids, ItemDelete ids] \<and>
   levels (snd (deleteInventoryItem ids s)) =
     filter (\<lambda>r. il_inventory_item_id r \<notin> set ids) (levels s) \<and>
   items (snd (deleteInventoryItem ids s)) = filter (\<lambda>i. ii_id i \<notin> set ids) (items s) \<and>
   reservations (snd (deleteInventoryItem ids s)) = reservations s"
  by (simp add: deleteInventoryItem_def InjectTransactionManager_def
        inventoryLevelService_deleteByInventoryItemId_def inventoryItemService_delete_def
        called_def)

subsection \<open>C9: reservation creation does not check availability\<close>

text \<open>
  Claim C9. \<open>createReservationItems\<close> never checks availability: for every batch of
  reservation inputs in which every (inventory_item_id, location_id) pair has a level row,
  whatever the requested quantities, the operation succeeds and writes one reservation
  row per input, with the input's item, location and quantity. An error is raised only
  when some pair lacks a level. The available quantity of any item over any locations
  falls by the quantities requested of its level rows, with no floor, so it can become
  negative.
\<close>

theorem createReservationItems_ignores_availability:
  assumes "list_all (\<lambda>d. has_level s (pair_of d)) input"
  shows "fst (createReservationItems input s) = Inr (new_reservations s input) \<and>
         reservations (snd (createReservationItems input s)) =
           reservations s @ new_reservations s input \<and>
         map (\<lambda>x. (ri_inventory_item_id x, ri_location_id x, ri_quantity x))
             (new_reservations s input) =
           map (\<lambda>d. (cri_inventory_item_id d, cri_location_id d, cri_quantity d)) input \<and>
         calls (snd (createReservationItems input s)) =
           calls s @
           [LevelList \<lparr>f_inventory_item_id = map cri_inventory_item_id input,
                       f_location_id = map cri_location_id input\<rparr> None,
            ReservationCreate input] \<and>
         available_total (snd (createReservationItems input s)) inventoryItemId locationIds =
           available_total s inventoryItemId locationIds -
           sum_list (map (requested input) (rows_of s inventoryItemId locationIds))"
proof -
  have none: "filter (\<lambda>p. \<not> has_level s p) (map pair_of input) = []"
    using assms by (auto simp: filter_empty_conv list_all_iff)
  have run: "createReservationItems input s =
      (Inr (new_reservations s input),
       s\<lparr>reservations := reservations s @ new_reservations s input,
          levels := map (\<lambda>r. r\<lparr>il_reserved_quantity := il_reserved_quantity r + requested input r\<rparr>)
                      (levels s),
          next_id := next_id s + length input,
          calls := calls s @
           [LevelList \<lparr>f_inventory_item_id = map cri_inventory_item_id input,
                       f_location_id = map cri_location_id input\<rparr> None,
            ReservationCreate input]\<rparr>)"
    using none
    by (simp add: createReservationItems_def InjectTransactionManager_def
          ensureInventoryLevels_eq Let_def reservationItemService_create_def
          new_reservations_def called_def adjust_fold)
  have rows: "map (\<lambda>x. (ri_inventory_item_id x, ri_location_id x, ri_quantity x))
             (new_reservations s input) =
           map (\<lambda>d. (cri_inventory_item_id d, cri_location_id d, cri_quantity d)) input"
    by (rule nth_equalityI) (simp_all add: new_reservations_def new_reservation_def)
  have avail: "available_total (snd (createReservationItems input s)) inventoryItemId locationIds =
           available_total s inventoryItemId locationIds -
           sum_list (map (requested input) (rows_of s inventoryItemId locationIds))"
    by (simp add: run available_total_def rows_of_def filter_map comp_def sum_list_map_diff3)
  show ?thesis
    using rows avail by (simp add: run)
qed

text \<open>
  The scenario of spec 8: \<open>I1\<close> has 10 units available at \<open>LOC1\<close>; a reservation of 11 units
  is accepted and leaves \<open>- 1\<close> available.
\<close>

theorem createReservationItems_ignores_availability_witness:
  "list_all (\<lambda>d. has_level store0 (pair_of d)) [reserve ''I1'' ''LOC1'' 11] \<and>
   fst (createReservationItems [reserve ''I1'' ''LOC1'' 11] store0) =
     Inr [\<lparr>ri_id = ''resitem_0'', ri_inventory_item_id = ''I1'', ri_location_id = ''LOC1'',
           ri_quantity = 11, ri_line_item_id = None\<rparr>] \<and>
   available_total store0 ''I1'' [''LOC1''] = 10 \<and>
   available_total (snd (createReservationItems [reserve ''I1'' ''LOC1'' 11] store0))
     ''I1'' [''LOC1''] = - 1"
proof -
  have h: "list_all (\<lambda>d. has_level store0 (pair_of d)) [reserve ''I1'' ''LOC1'' 11]"
    by (simp add: has_level_def level_at_def pair_of_def reserve_def store0_def
          lvl1_def lvl2_def lvl3_def)
  have a: "available_total store0 ''I1'' [''LOC1''] = 10"
    by (simp add: available_total_def rows_of_def store0_def lvl1_def lvl2_def lvl3_def)
  have r: "sum_list (map (requested [reserve ''I1'' ''LOC1'' 11])
                       (rows_of store0 ''I1'' [''LOC1''])) = 11"
    by (simp add: requested_def rows_of_def level_at_def reserve_def store0_def
          lvl1_def lvl2_def lvl3_def)
  have n: "new_reservations store0 [reserve ''I1'' ''LOC1'' 11] =
     [\<lparr>ri_id = ''resitem_0'', ri_inventory_item_id = ''I1'', ri_location_id = ''LOC1'',
           ri_quantity = 11, ri_line_item_id = None\<rparr>]"
    by (simp add: new_reservations_def new_reservation_def reserve_def store0_def decimal_0)
  show ?thesis
    using h createReservationItems_ignores_availability [OF h, of "''I1''" "[''LOC1'']"]
    by (simp add: a r n)
qed

subsection \<open>C10: \<open>confirmInventory\<close> on an unknown item\<close>

text \<open>
  Claim C10. For every item id with no inventory item record, \<open>confirmInventory\<close> fails
  with \<open>NOT_FOUND\<close> rather than returning \<open>false\<close>: the failure of the item retrieval inside
  \<open>retrieveAvailableQuantity\<close> propagates, and it is the only call made.
\<close>

theorem confirmInventory_unknown_item_not_found:
  assumes "\<not> item_exists s inventoryItemId"
  shows "\<exists>msg. confirmInventory inventoryItemId locationIds quantity s =
     (Inl (MedusaError NOT_FOUND msg), s\<lparr>calls := calls s @ [ItemRetrieve inventoryItemId]\<rparr>)"
  using retrieve_unknown [OF assms]
  by (auto simp: confirmInventory_def InjectTransactionManager_def retrieveAvailableQuantity_def)

theorem confirmInventory_unknown_item_not_found_witness:
  "\<not> item_exists store0 ''I9'' \<and>
   (\<exists>msg. confirmInventory ''I9'' [''LOC1''] 1 store0 =
      (Inl (MedusaError NOT_FOUND msg), store0\<lparr>calls := [ItemRetrieve ''I9'']\<rparr>)) \<and>
   fst (confirmInventory ''I9'' [''LOC1''] 1 store0) \<noteq> Inr False"
proof -
  have h: "\<not> item_exists store0 ''I9''"
    by (simp add: item_exists_def store0_def)
  have c: "calls store0 = []"
    by (simp add: store0_def)
  show ?thesis
    using h confirmInventory_unknown_item_not_found [OF h, of "[''LOC1'']" 1]
    by (auto simp: c)
qed

end
